theory Spec2Isabelle
  imports Complex_Main
begin

section \<open>Values of the JavaScript runtime\<close>

text \<open>
  The worker in \<^verbatim>\<open>src/index.js\<close> is one \<^verbatim>\<open>fetch(request, env, ctx)\<close> function. Its
  data are JSON values: the parsed request body, the product documents, the response
  bodies handed to \<^verbatim>\<open>JSON.stringify\<close>. A number is the value of the double that
  \<^verbatim>\<open>JSON.parse\<close> produced: a rational, or one of the two infinities (the text
  \<^verbatim>\<open>1e999\<close> parses to \<^verbatim>\<open>Infinity\<close>); the two zeros are not told apart. An object is the
  list of its own properties in insertion order.
\<close>

datatype json =
    JNull
  | JBool bool
  | JNum rat
  | JPosInf
  | JNegInf
  | JStr string
  | JArr "json list"
  | JObj "(string \<times> json) list"

text \<open>
  What the worker uses of its runtime without defining it: \<^verbatim>\<open>JSON.stringify\<close> and
  \<^verbatim>\<open>JSON.parse\<close> (\<open>Inl\<close> carries the message of the error thrown), the text of
  \<^verbatim>\<open>Date.prototype.toISOString\<close> for a time value in range and the message of its
  \<^verbatim>\<open>RangeError\<close>, the comparison \<^verbatim>\<open>v < 1\<close> and the sum \<^verbatim>\<open>a + b\<close> where they coerce
  strings, arrays and objects, the binding of a value that is not a string to a
  \<^verbatim>\<open>TEXT\<close> parameter of a D1 statement, the messages of the two \<^verbatim>\<open>TypeError\<close>s
  raised on \<^verbatim>\<open>null\<close>, and the message of D1's error for a second row with the same
  primary key.
\<close>

record runtime =
  json_stringify :: "json \<Rightarrow> string"
  json_parse :: "string \<Rightarrow> string + json"
  iso_format :: "int \<Rightarrow> string"
  invalid_time_msg :: string
  coerce_lt1 :: "json \<Rightarrow> string + bool"
  js_add :: "json \<Rightarrow> json \<Rightarrow> json"
  bind_other :: "json \<Rightarrow> string + string"
  destructure_null_msg :: string
  read_null_msg :: "string \<Rightarrow> string"
  unique_violation_msg :: string

text \<open>Truthiness (\<^verbatim>\<open>!v\<close> is its negation). \<open>None\<close> is \<^verbatim>\<open>undefined\<close>.\<close>

fun truthy :: "json \<Rightarrow> bool" where
  "truthy JNull = False"
| "truthy (JBool b) = b"
| "truthy (JNum q) = (q \<noteq> 0)"
| "truthy JPosInf = True"
| "truthy JNegInf = True"
| "truthy (JStr s) = (s \<noteq> [])"
| "truthy (JArr xs) = True"
| "truthy (JObj kvs) = True"

fun truthy_opt :: "json option \<Rightarrow> bool" where
  "truthy_opt None = False"
| "truthy_opt (Some v) = truthy v"

text \<open>
  Property read \<^verbatim>\<open>v.k\<close> for the keys the worker reads (\<^verbatim>\<open>id\<close>, \<^verbatim>\<open>quantity\<close>): a
  \<^verbatim>\<open>TypeError\<close> on \<^verbatim>\<open>null\<close>, the own property of an object, \<^verbatim>\<open>undefined\<close> on a
  primitive or an array.
\<close>

fun get_prop :: "runtime \<Rightarrow> json \<Rightarrow> string \<Rightarrow> string + json option" where
  "get_prop rt JNull k = Inl (read_null_msg rt k)"
| "get_prop rt (JObj kvs) k = Inr (map_of kvs k)"
| "get_prop rt v k = Inr None"

text \<open>
  One binding of \<^verbatim>\<open>const { name, phone, address, items } = body\<close>, once \<^verbatim>\<open>body\<close> is known
  not to be \<^verbatim>\<open>null\<close>.
\<close>

fun field :: "json \<Rightarrow> string \<Rightarrow> json option" where
  "field (JObj kvs) k = map_of kvs k"
| "field v k = None"

fun is_array :: "json option \<Rightarrow> bool" where
  "is_array (Some (JArr xs)) = True"
| "is_array v = False"

fun array_elems :: "json option \<Rightarrow> json list" where
  "array_elems (Some (JArr xs)) = xs"
| "array_elems v = []"

text \<open>
  \<^verbatim>\<open>v < 1\<close> for a truthy \<^verbatim>\<open>v\<close>: numbers compare as they are, \<^verbatim>\<open>true\<close> is 1, and the
  coercion of a string, an array or an object is the runtime's (it may throw).
\<close>

fun lt_one :: "runtime \<Rightarrow> json \<Rightarrow> string + bool" where
  "lt_one rt JNull = Inr True"
| "lt_one rt (JBool b) = Inr (\<not> b)"
| "lt_one rt (JNum q) = Inr (q < 1)"
| "lt_one rt JPosInf = Inr False"
| "lt_one rt JNegInf = Inr True"
| "lt_one rt v = coerce_lt1 rt v"

section \<open>Strings\<close>

definition starts_with :: "string \<Rightarrow> string \<Rightarrow> bool" where
  "starts_with s p = (take (length p) s = p)"

text \<open>\<^verbatim>\<open>s.includes(sub)\<close>.\<close>

fun str_includes :: "string \<Rightarrow> string \<Rightarrow> bool" where
  "str_includes [] sub = (sub = [])"
| "str_includes (c # cs) sub = (starts_with (c # cs) sub \<or> str_includes cs sub)"

text \<open>\<^verbatim>\<open>s.split('/')\<close>: never empty, so \<^verbatim>\<open>.pop()\<close> is its last element.\<close>

fun split_slash :: "string \<Rightarrow> string list" where
  "split_slash [] = [[]]"
| "split_slash (c # cs) =
     (if c = CHR ''/'' then [] # split_slash cs
      else (case split_slash cs of
              [] \<Rightarrow> [[c]]
            | seg # segs \<Rightarrow> (c # seg) # segs))"

definition last_segment :: "string \<Rightarrow> string" where
  "last_segment p = last (split_slash p)"

text \<open>\<^verbatim>\<open>s.substr(2, 9)\<close>: at most nine characters from index 2.\<close>

definition substr_2_9 :: "string \<Rightarrow> string" where
  "substr_2_9 s = take 9 (drop 2 s)"

text \<open>The decimal digits of a non-negative integer, as a template literal prints it.\<close>

definition digit_char :: "nat \<Rightarrow> char" where
  "digit_char d = ''0123456789'' ! (d mod 10)"

function decimal :: "nat \<Rightarrow> string" where
  "decimal n = (if n < 10 then [digit_char n] else decimal (n div 10) @ [digit_char n])"
  by pat_completeness auto
termination
  by (relation "measure id") auto

declare decimal.simps [simp del]

section \<open>Requests, responses and the two stores\<close>

text \<open>
  A request as the worker reads it: the method, \<^verbatim>\<open>new URL(request.url).pathname\<close>, and
  the outcome of \<^verbatim>\<open>await request.json()\<close> (\<open>Inl\<close> the message of the error it
  throws).
\<close>

record request =
  req_method :: string
  req_pathname :: string
  req_json :: "string + json"

text \<open>
  A response: the status, the headers passed to \<^verbatim>\<open>new Response\<close>, and the value whose
  \<^verbatim>\<open>JSON.stringify\<close> is the body (\<open>None\<close> for the \<^verbatim>\<open>null\<close> body).
\<close>

record response =
  status :: nat
  headers :: "(string \<times> string) list"
  body :: "json option"

text \<open>
  A row of \<^verbatim>\<open>orders\<close>, its columns as the schema declares them
  (\<^verbatim>\<open>id TEXT PRIMARY KEY\<close>, four \<^verbatim>\<open>TEXT NOT NULL\<close>, \<^verbatim>\<open>created_at INTEGER NOT NULL\<close>).
\<close>

record order_row =
  row_id :: string
  row_name :: string
  row_phone :: string
  row_address :: string
  row_items :: string
  row_created_at :: int

text \<open>
  The product store, read only: \<^verbatim>\<open>list()\<close> gives the key names, \<^verbatim>\<open>get(k, {type: 'json'})\<close>
  a document or \<^verbatim>\<open>null\<close>; either may throw.
\<close>

record kv_store =
  kv_list :: "string + string list"
  kv_get :: "string \<Rightarrow> string + json"

text \<open>
  The bindings: each is absent or present; \<^verbatim>\<open>DB\<close>, when present, holds the rows of
  \<^verbatim>\<open>orders\<close> in insertion order.
\<close>

record env =
  PRODUCTS_KV :: "kv_store option"
  DB :: "order_row list option"

text \<open>
  What one request reads from outside: the two results of \<^verbatim>\<open>Date.now()\<close> (lines 197 and
  198; \<^verbatim>\<open>new Date()\<close> of the health check is the first), the string
  \<^verbatim>\<open>Math.random().toString(36)\<close>, and for each statement the request runs against D1, in
  order, the message of the error the statement raises, if it raises one (a missing table,
  a lost connection). A statement that raises leaves the rows as they were.
\<close>

record ambient =
  now_ms1 :: nat
  now_ms2 :: nat
  random36 :: string
  faults :: "string option list"

fun next_fault :: "string option list \<Rightarrow> string option" where
  "next_fault [] = None"
| "next_fault (f # fs) = f"

subsection \<open>The three statements\<close>

text \<open>\<^verbatim>\<open>INSERT INTO orders (...) VALUES (...)\<close>: refused when the primary key is taken.\<close>

definition db_insert ::
  "runtime \<Rightarrow> string option \<Rightarrow> order_row \<Rightarrow> order_row list \<Rightarrow> string + order_row list" where
  "db_insert rt f r rs =
     (case f of
        Some m \<Rightarrow> Inl m
      | None \<Rightarrow>
          if row_id r \<in> set (map row_id rs) then Inl (unique_violation_msg rt)
          else Inr (rs @ [r]))"

text \<open>
  \<^verbatim>\<open>SELECT id, name, phone, address, created_at FROM orders ORDER BY created_at DESC\<close>;
  rows with equal \<^verbatim>\<open>created_at\<close> are kept in insertion order here.
\<close>

definition db_select_all ::
  "string option \<Rightarrow> order_row list \<Rightarrow> string + order_row list" where
  "db_select_all f rs =
     (case f of
        Some m \<Rightarrow> Inl m
      | None \<Rightarrow> Inr (sort_key (\<lambda>r. - row_created_at r) rs))"

text \<open>\<^verbatim>\<open>SELECT * FROM orders WHERE id = ?\<close> with \<^verbatim>\<open>.first()\<close>.\<close>

definition db_first ::
  "string option \<Rightarrow> string \<Rightarrow> order_row list \<Rightarrow> string + order_row option" where
  "db_first f oid rs =
     (case f of
        Some m \<Rightarrow> Inl m
      | None \<Rightarrow> Inr (find (\<lambda>r. row_id r = oid) rs))"

text \<open>
  \<^verbatim>\<open>.bind(...)\<close> of a value to a \<^verbatim>\<open>TEXT\<close> column: a string is stored as it is.
\<close>

definition bind_text :: "runtime \<Rightarrow> json \<Rightarrow> string + string" where
  "bind_text rt v = (case v of JStr s \<Rightarrow> Inr s | _ \<Rightarrow> bind_other rt v)"

text \<open>
  \<^verbatim>\<open>new Date(ms).toISOString()\<close>: a \<^verbatim>\<open>RangeError\<close> outside the range of time values.
\<close>

definition date_iso :: "runtime \<Rightarrow> int \<Rightarrow> string + string" where
  "date_iso rt ms =
     (if \<bar>ms\<bar> \<le> 8640000000000000 then Inr (iso_format rt ms)
      else Inl (invalid_time_msg rt))"

subsection \<open>Responses\<close>

definition json_headers :: "(string \<times> string) list" where
  "json_headers =
     [(''Content-Type'', ''application/json''), (''Access-Control-Allow-Origin'', ''*'')]"

definition json_response :: "nat \<Rightarrow> json \<Rightarrow> response" where
  "json_response st v = \<lparr>status = st, headers = json_headers, body = Some v\<rparr>"

definition error_body :: "string \<Rightarrow> json" where
  "error_body m = JObj [(''error'', JStr m)]"

definition preflight_response :: response where
  "preflight_response =
     \<lparr>status = 200,
      headers =
        [(''Access-Control-Allow-Origin'', ''*''),
         (''Access-Control-Allow-Methods'', ''GET, POST, OPTIONS, DELETE''),
         (''Access-Control-Allow-Headers'', ''Content-Type'')],
      body = None\<rparr>"

definition header :: "response \<Rightarrow> string \<Rightarrow> string option" where
  "header r k = map_of (headers r) k"

section \<open>The handlers\<close>

text \<open>
  Each handler is one \<^verbatim>\<open>if\<close> block of \<^verbatim>\<open>fetch\<close>, with its \<^verbatim>\<open>try\<close>/\<^verbatim>\<open>catch\<close> written out:
  wherever the source can throw, the model has a branch that goes to what the
  \<^verbatim>\<open>catch\<close> returns. The \<^verbatim>\<open>console\<close> calls are left out.
\<close>

subsection \<open>GET /products and GET /product/:id (lines 19-129)\<close>

definition kv_not_configured :: response where
  "kv_not_configured = json_response 500 (error_body ''Products KV binding not configured'')"

definition db_not_configured :: response where
  "db_not_configured = json_response 500 (error_body ''Database binding not configured'')"

text \<open>
  \<^verbatim>\<open>Promise.all\<close> over the lookups: the documents in key order, or a rejection (taken
  to be the first in key order when several lookups throw).
\<close>

fun kv_get_all :: "kv_store \<Rightarrow> string list \<Rightarrow> string + json list" where
  "kv_get_all kv [] = Inr []"
| "kv_get_all kv (k # ks) =
     (case kv_get kv k of
        Inl m \<Rightarrow> Inl m
      | Inr v \<Rightarrow>
          (case kv_get_all kv ks of
             Inl m \<Rightarrow> Inl m
           | Inr vs \<Rightarrow> Inr (v # vs)))"

definition get_products :: "env \<Rightarrow> response" where
  "get_products e =
     (case PRODUCTS_KV e of
        None \<Rightarrow> kv_not_configured
      | Some kv \<Rightarrow>
          (case kv_list kv of
             Inl m \<Rightarrow> json_response 500 (error_body m)
           | Inr keys \<Rightarrow>
               if length keys = 0 then json_response 200 (JArr [])
               else
                 (case kv_get_all kv keys of
                    Inl m \<Rightarrow> json_response 500 (error_body m)
                  | Inr products \<Rightarrow>
                      json_response 200 (JArr (filter (\<lambda>p. p \<noteq> JNull) products)))))"

definition get_product :: "request \<Rightarrow> env \<Rightarrow> response" where
  "get_product req e =
     (let productId = last_segment (req_pathname req) in
      case PRODUCTS_KV e of
        None \<Rightarrow> kv_not_configured
      | Some kv \<Rightarrow>
          (case kv_get kv productId of
             Inl m \<Rightarrow> json_response 500 (error_body m)
           | Inr product \<Rightarrow>
               if truthy product then json_response 200 product
               else json_response 404 (error_body ''Product not found'')))"

subsection \<open>POST /checkout (lines 132-270)\<close>

definition missing_fields_msg :: string where
  "missing_fields_msg = ''Missing required fields: name, phone, address, items (array)''"

text \<open>
  The message of line 172. Between the parentheses the file has the seven bytes
  \<^verbatim>\<open>c3 a2 e2 80 b0 c2 a5\<close> and then \<^verbatim>\<open>1\<close>; they are kept as they are.
\<close>

definition invalid_item_msg :: string where
  "invalid_item_msg =
     ''Each item must have id and valid quantity ('' @
     [CHR 0xC3, CHR 0xA2, CHR 0xE2, CHR 0x80, CHR 0xB0, CHR 0xC2, CHR 0xA5] @ ''1)''"

text \<open>
  The test of line 170, \<^verbatim>\<open>!item.id || !item.quantity || item.quantity < 1\<close>, left to
  right: \<open>Inr True\<close> when the item is rejected, \<open>Inl\<close> when the test throws.
\<close>

definition check_item :: "runtime \<Rightarrow> json \<Rightarrow> string + bool" where
  "check_item rt item =
     (case get_prop rt item ''id'' of
        Inl m \<Rightarrow> Inl m
      | Inr i \<Rightarrow>
          if \<not> truthy_opt i then Inr True
          else
            (case get_prop rt item ''quantity'' of
               Inl m \<Rightarrow> Inl m
             | Inr None \<Rightarrow> Inr True
             | Inr (Some q) \<Rightarrow> if \<not> truthy q then Inr True else lt_one rt q))"

text \<open>
  The loop of lines 169-194: the first rejected item, if any. The product lookup that
  follows the test of each item (lines 184-193) only logs, inside its own
  \<^verbatim>\<open>try\<close>/\<^verbatim>\<open>catch\<close>; it changes neither the response nor the store.
\<close>

fun validate_items :: "runtime \<Rightarrow> json list \<Rightarrow> string + json option" where
  "validate_items rt [] = Inr None"
| "validate_items rt (item # rest) =
     (case check_item rt item of
        Inl m \<Rightarrow> Inl m
      | Inr True \<Rightarrow> Inr (Some item)
      | Inr False \<Rightarrow> validate_items rt rest)"

definition invalid_item_response :: "json \<Rightarrow> response" where
  "invalid_item_response item =
     json_response 400 (JObj [(''error'', JStr invalid_item_msg), (''invalidItem'', item)])"

text \<open>\<^verbatim>\<open>item.quantity\<close> of an item that passed the test (\<^verbatim>\<open>undefined\<close> shown as \<open>JNull\<close>).\<close>

definition quantity_of :: "json \<Rightarrow> json" where
  "quantity_of item = (case field item ''quantity'' of Some q \<Rightarrow> q | None \<Rightarrow> JNull)"

definition order_id :: "ambient \<Rightarrow> string" where
  "order_id a = ''ord_'' @ decimal (now_ms1 a) @ ''_'' @ substr_2_9 (random36 a)"

definition created_at_of :: "ambient \<Rightarrow> nat" where
  "created_at_of a = now_ms2 a div 1000"

text \<open>
  The body of the 201 response. The clock's value is a time value in range, so this
  \<^verbatim>\<open>toISOString\<close> does not throw.
\<close>

definition success_body :: "runtime \<Rightarrow> ambient \<Rightarrow> json \<Rightarrow> json list \<Rightarrow> json" where
  "success_body rt a name items =
     JObj
       [(''success'', JBool True),
        (''orderId'', JStr (order_id a)),
        (''message'', JStr ''Order placed successfully''),
        (''timestamp'', JNum (of_nat (created_at_of a))),
        (''created_at'', JStr (iso_format rt (int (created_at_of a) * 1000))),
        (''summary'',
           JObj
             [(''customer'', name),
              (''itemCount'', JNum (of_nat (length items))),
              (''totalItems'',
                 foldl (\<lambda>sum item. js_add rt sum (quantity_of item)) (JNum 0) items)])]"

definition checkout_error :: "string \<Rightarrow> response" where
  "checkout_error m =
     (if m \<noteq> [] \<and> str_includes m ''no such table''
      then json_response 500
             (JObj [(''error'', JStr ''Orders table not found. Please run the schema.sql file first.''),
                    (''details'', JStr m)])
      else json_response 500 (error_body m))"

text \<open>
  Lines 196-241, after validation: the insert and the 201 response. The arguments of
  \<^verbatim>\<open>.bind\<close> are converted in order, and a conversion that throws is caught like the
  insert's own error.
\<close>

definition place_order ::
  "runtime \<Rightarrow> ambient \<Rightarrow> env \<Rightarrow> json \<Rightarrow> json \<Rightarrow> json \<Rightarrow> json list \<Rightarrow> response \<times> env" where
  "place_order rt a e name phone address items =
     (let orderId = order_id a;
          createdAt = created_at_of a;
          itemsJson = json_stringify rt (JArr items)
      in case DB e of
           None \<Rightarrow> (db_not_configured, e)
         | Some rs \<Rightarrow>
             (case bind_text rt name of
                Inl m \<Rightarrow> (checkout_error m, e)
              | Inr n \<Rightarrow>
             (case bind_text rt phone of
                Inl m \<Rightarrow> (checkout_error m, e)
              | Inr p \<Rightarrow>
             (case bind_text rt address of
                Inl m \<Rightarrow> (checkout_error m, e)
              | Inr ad \<Rightarrow>
             (case db_insert rt (next_fault (faults a))
                     \<lparr>row_id = orderId, row_name = n, row_phone = p, row_address = ad,
                      row_items = itemsJson, row_created_at = int createdAt\<rparr> rs of
                Inl m \<Rightarrow> (checkout_error m, e)
              | Inr rs' \<Rightarrow>
                  (json_response 201 (success_body rt a name items),
                   e\<lparr>DB := Some rs'\<rparr>))))))"

text \<open>
  The whole handler. Where \<open>the\<close> is applied, the value has passed the truthiness test
  of line 143, so it is defined.
\<close>

definition checkout :: "runtime \<Rightarrow> ambient \<Rightarrow> request \<Rightarrow> env \<Rightarrow> response \<times> env" where
  "checkout rt a req e =
     (case req_json req of
        Inl m \<Rightarrow> (checkout_error m, e)
      | Inr JNull \<Rightarrow> (checkout_error (destructure_null_msg rt), e)
      | Inr b \<Rightarrow>
          (let name = field b ''name'';
               phone = field b ''phone'';
               address = field b ''address'';
               items = field b ''items''
           in if \<not> truthy_opt name \<or> \<not> truthy_opt phone \<or> \<not> truthy_opt address
                 \<or> \<not> truthy_opt items \<or> \<not> is_array items
              then (json_response 400 (error_body missing_fields_msg), e)
              else if length (array_elems items) = 0
              then (json_response 400 (error_body ''Cart is empty''), e)
              else
                (case validate_items rt (array_elems items) of
                   Inl m \<Rightarrow> (checkout_error m, e)
                 | Inr (Some item) \<Rightarrow> (invalid_item_response item, e)
                 | Inr None \<Rightarrow>
                     place_order rt a e (the name) (the phone) (the address)
                       (array_elems items))))"

subsection \<open>GET /orders (lines 273-355)\<close>

text \<open>The object of a selected row, and \<^verbatim>\<open>{...o, k: v}\<close> on it.\<close>

definition order_props :: "order_row \<Rightarrow> (string \<times> json) list" where
  "order_props r =
     [(''id'', JStr (row_id r)), (''name'', JStr (row_name r)),
      (''phone'', JStr (row_phone r)), (''address'', JStr (row_address r)),
      (''created_at'', JNum (of_int (row_created_at r)))]"

definition full_props :: "order_row \<Rightarrow> (string \<times> json) list" where
  "full_props r =
     [(''id'', JStr (row_id r)), (''name'', JStr (row_name r)),
      (''phone'', JStr (row_phone r)), (''address'', JStr (row_address r)),
      (''items'', JStr (row_items r)),
      (''created_at'', JNum (of_int (row_created_at r)))]"

fun put_prop :: "string \<Rightarrow> json \<Rightarrow> (string \<times> json) list \<Rightarrow> (string \<times> json) list" where
  "put_prop k v [] = [(k, v)]"
| "put_prop k v ((k', v') # kvs) =
     (if k' = k then (k, v) # kvs else (k', v') # put_prop k v kvs)"

text \<open>
  The \<^verbatim>\<open>catch\<close> of lines 312-320. Its own \<^verbatim>\<open>toISOString\<close> is outside any \<^verbatim>\<open>try\<close> of the
  callback: when it throws, the callback's promise rejects.
\<close>

definition order_fallback :: "runtime \<Rightarrow> order_row \<Rightarrow> string \<Rightarrow> string + json" where
  "order_fallback rt order m =
     (case date_iso rt (row_created_at order * 1000) of
        Inl m' \<Rightarrow> Inl m'
      | Inr isoStr \<Rightarrow>
          Inr (JObj (put_prop ''parseError'' (JStr m)
                 (put_prop ''created_at'' (JStr isoStr)
                    (put_prop ''items'' (JArr []) (order_props order))))))"

text \<open>The callback of lines 298-321 for one selected row.\<close>

definition order_with_items ::
  "runtime \<Rightarrow> string option \<Rightarrow> order_row list \<Rightarrow> order_row \<Rightarrow> string + json" where
  "order_with_items rt f rs order =
     (case db_first f (row_id order) rs of
        Inl m \<Rightarrow> order_fallback rt order m
      | Inr None \<Rightarrow> Inr (JObj (order_props order))
      | Inr (Some fullOrder) \<Rightarrow>
          if row_items fullOrder \<noteq> [] then
            (case json_parse rt (row_items fullOrder) of
               Inl m \<Rightarrow> order_fallback rt order m
             | Inr parsed \<Rightarrow>
                 (case date_iso rt (row_created_at order * 1000) of
                    Inl m \<Rightarrow> order_fallback rt order m
                  | Inr isoStr \<Rightarrow>
                      Inr (JObj (put_prop ''created_at'' (JStr isoStr)
                             (put_prop ''items'' parsed (order_props order))))))
          else Inr (JObj (order_props order)))"

text \<open>
  \<^verbatim>\<open>Promise.all(results.map(...))\<close>: one statement per row, in the order of the rows.
\<close>

fun orders_with_items ::
  "runtime \<Rightarrow> string option list \<Rightarrow> order_row list \<Rightarrow> order_row list \<Rightarrow> string + json list" where
  "orders_with_items rt fs rs [] = Inr []"
| "orders_with_items rt fs rs (order # orders) =
     (case order_with_items rt (next_fault fs) rs order of
        Inl m \<Rightarrow> Inl m
      | Inr x \<Rightarrow>
          (case orders_with_items rt (tl fs) rs orders of
             Inl m \<Rightarrow> Inl m
           | Inr xs \<Rightarrow> Inr (x # xs)))"

definition orders_error :: "string \<Rightarrow> response" where
  "orders_error m =
     (if m \<noteq> [] \<and> str_includes m ''no such table''
      then json_response 404
             (JObj [(''error'', JStr ''Orders table not found. No orders have been placed yet.''),
                    (''details'', JStr m)])
      else json_response 500 (error_body m))"

definition get_orders :: "runtime \<Rightarrow> ambient \<Rightarrow> env \<Rightarrow> response" where
  "get_orders rt a e =
     (case DB e of
        None \<Rightarrow> db_not_configured
      | Some rs \<Rightarrow>
          (case db_select_all (next_fault (faults a)) rs of
             Inl m \<Rightarrow> orders_error m
           | Inr results \<Rightarrow>
               (case orders_with_items rt (tl (faults a)) rs results of
                  Inl m \<Rightarrow> orders_error m
                | Inr xs \<Rightarrow> json_response 200 (JArr xs))))"

subsection \<open>GET /order/:id (lines 358-413)\<close>

definition get_order :: "runtime \<Rightarrow> ambient \<Rightarrow> request \<Rightarrow> env \<Rightarrow> response" where
  "get_order rt a req e =
     (let orderId = last_segment (req_pathname req) in
      case DB e of
        None \<Rightarrow> db_not_configured
      | Some rs \<Rightarrow>
          (case db_first (next_fault (faults a)) orderId rs of
             Inl m \<Rightarrow> json_response 500 (error_body m)
           | Inr None \<Rightarrow> json_response 404 (error_body ''Order not found'')
           | Inr (Some order) \<Rightarrow>
               (case json_parse rt (row_items order) of
                  Inl m \<Rightarrow> json_response 500 (error_body m)
                | Inr parsed \<Rightarrow>
                    (case date_iso rt (row_created_at order * 1000) of
                       Inl m \<Rightarrow> json_response 500 (error_body m)
                     | Inr isoStr \<Rightarrow>
                         json_response 200
                           (JObj (put_prop ''created_at'' (JStr isoStr)
                              (put_prop ''items'' parsed (full_props order))))))))"

subsection \<open>GET /health, the default response and the router\<close>

definition health :: "runtime \<Rightarrow> ambient \<Rightarrow> env \<Rightarrow> response" where
  "health rt a e =
     json_response 200
       (JObj
          [(''status'', JStr ''ok''),
           (''timestamp'', JStr (iso_format rt (int (now_ms1 a)))),
           (''services'',
              JObj [(''kv'', JBool (PRODUCTS_KV e \<noteq> None)),
                    (''d1'', JBool (DB e \<noteq> None))])])"

definition default_response :: response where
  "default_response =
     json_response 200
       (JObj
          [(''message'', JStr ''E-commerce API''),
           (''endpoints'',
              JArr
                [JStr ''GET  /products - List all products'',
                 JStr ''GET  /product/:id - Get single product'',
                 JStr ''POST /checkout - Place an order'',
                 JStr ''GET  /orders - List all orders (admin)'',
                 JStr ''GET  /order/:id - Get specific order'',
                 JStr ''GET  /health - Health check'']),
           (''note'', JStr ''Products are stored in KV, orders are stored in D1'')])"

text \<open>\<^verbatim>\<open>fetch\<close>: the response and the bindings after the request.\<close>

definition fetch :: "runtime \<Rightarrow> ambient \<Rightarrow> request \<Rightarrow> env \<Rightarrow> response \<times> env" where
  "fetch rt a req e =
     (if req_method req = ''OPTIONS'' then (preflight_response, e)
      else if req_method req = ''GET'' \<and> req_pathname req = ''/products''
      then (get_products e, e)
      else if req_method req = ''GET'' \<and> starts_with (req_pathname req) ''/product/''
      then (get_product req e, e)
      else if req_method req = ''POST'' \<and> req_pathname req = ''/checkout''
      then checkout rt a req e
      else if req_method req = ''GET'' \<and> req_pathname req = ''/orders''
      then (get_orders rt a e, e)
      else if req_method req = ''GET'' \<and> starts_with (req_pathname req) ''/order/''
      then (get_order rt a req e, e)
      else if req_method req = ''GET'' \<and> req_pathname req = ''/health''
      then (health rt a e, e)
      else (default_response, e))"

section \<open>The listing as the specification words it\<close>

text \<open>
  One element of the \<^verbatim>\<open>GET /orders\<close> array for a stored row, when no statement fails:
  \<^verbatim>\<open>created_at\<close> as an ISO-8601 string and \<^verbatim>\<open>items\<close> parsed; on a parse failure
  \<^verbatim>\<open>items: []\<close> and \<^verbatim>\<open>parseError\<close>; and the row as selected when its \<^verbatim>\<open>items\<close> column
  is the empty string. It is compared with \<open>get_orders\<close> below.
\<close>

definition spec_listed_order :: "runtime \<Rightarrow> order_row \<Rightarrow> json" where
  "spec_listed_order rt r =
     (if row_items r = [] then JObj (order_props r)
      else
        (case json_parse rt (row_items r) of
           Inr parsed \<Rightarrow>
             JObj [(''id'', JStr (row_id r)), (''name'', JStr (row_name r)),
                   (''phone'', JStr (row_phone r)), (''address'', JStr (row_address r)),
                   (''created_at'', JStr (iso_format rt (row_created_at r * 1000))),
                   (''items'', parsed)]
         | Inl m \<Rightarrow>
             JObj [(''id'', JStr (row_id r)), (''name'', JStr (row_name r)),
                   (''phone'', JStr (row_phone r)), (''address'', JStr (row_address r)),
                   (''created_at'', JStr (iso_format rt (row_created_at r * 1000))),
                   (''items'', JArr []),
                   (''parseError'', JStr m)]))"

definition base36 :: "char set" where
  "base36 = set ''0123456789abcdefghijklmnopqrstuvwxyz''"

section \<open>Sample runs\<close>

text \<open>
  The runtime at the arguments the sample runs below reach: what V8 and D1 return
  there. Elsewhere the functions have a placeholder value, and the error messages
  stand for the engine's.
\<close>

definition item_of :: "json \<Rightarrow> json" where
  "item_of q = JObj [(''id'', JStr ''x''), (''quantity'', q)]"

definition sample_runtime :: runtime where
  \<open>sample_runtime =
     \<lparr>json_stringify = (\<lambda>v.
          if v = JArr [item_of JPosInf] then ''[{"id":"x","quantity":null}]''
          else if v = JArr [item_of (JNum 2)] then ''[{"id":"x","quantity":2}]''
          else if v = JArr [item_of (JBool True)] then ''[{"id":"x","quantity":true}]''
          else ''null''),
      json_parse = (\<lambda>s.
          if s = ''[{"id":"x","quantity":null}]'' then Inr (JArr [item_of JNull])
          else if s = ''[{"id":"x","quantity":2}]'' then Inr (JArr [item_of (JNum 2)])
          else if s = ''[{"id":"x","quantity":true}]'' then Inr (JArr [item_of (JBool True)])
          else Inl ''Unexpected token in JSON''),
      iso_format = (\<lambda>ms.
          if ms = 1700000000000 then ''2023-11-14T22:13:20.000Z''
          else ''1970-01-01T00:00:00.000Z''),
      invalid_time_msg = ''Invalid time value'',
      coerce_lt1 = (\<lambda>v. Inr False),
      js_add = (\<lambda>x y.
          case (x, y) of
            (JNum p, JNum q) \<Rightarrow> JNum (p + q)
          | (JNum p, JBool b) \<Rightarrow> JNum (p + (if b then 1 else 0))
          | _ \<Rightarrow> JNull),
      bind_other = (\<lambda>v. Inl ''D1_TYPE_ERROR: Type not supported''),
      destructure_null_msg = ''Cannot destructure property of null'',
      read_null_msg = (\<lambda>k. ''Cannot read properties of null''),
      unique_violation_msg = ''UNIQUE constraint failed: orders.id''\<rparr>\<close>

definition sample_ambient :: ambient where
  "sample_ambient =
     \<lparr>now_ms1 = 1700000000000, now_ms2 = 1700000000000, random36 = ''0.i'', faults = []\<rparr>"

definition sample_env :: env where
  "sample_env = \<lparr>PRODUCTS_KV = None, DB = Some []\<rparr>"

definition sample_body :: "json \<Rightarrow> json \<Rightarrow> json" where
  "sample_body name items =
     JObj [(''name'', name), (''phone'', JStr ''555-0100''), (''address'', JStr ''1 Main St''),
           (''items'', items)]"

definition post_checkout :: "string + json \<Rightarrow> request" where
  "post_checkout b = \<lparr>req_method = ''POST'', req_pathname = ''/checkout'', req_json = b\<rparr>"

text \<open>A request without a body: \<^verbatim>\<open>request.json()\<close> would throw, and is not called.\<close>

definition bodyless :: "string \<Rightarrow> string \<Rightarrow> request" where
  "bodyless m p =
     \<lparr>req_method = m, req_pathname = p, req_json = Inl ''Unexpected end of JSON input''\<rparr>"

definition sample_row :: "string \<Rightarrow> string \<Rightarrow> order_row" where
  "sample_row oid its =
     \<lparr>row_id = oid, row_name = ''Ann'', row_phone = ''555-0100'', row_address = ''1 Main St'',
      row_items = its, row_created_at = 1700000000\<rparr>"

section \<open>Headers of the responses\<close>

lemma headers_json_response [simp]: "headers (json_response st v) = json_headers"
  by (simp add: json_response_def)

lemma headers_checkout_error [simp]: "headers (checkout_error m) = json_headers"
  by (simp add: checkout_error_def)

lemma headers_orders_error [simp]: "headers (orders_error m) = json_headers"
  by (simp add: orders_error_def)

lemma headers_get_products: "headers (get_products e) = json_headers"
  by (simp add: get_products_def kv_not_configured_def split: option.splits sum.splits)

lemma headers_get_product: "headers (get_product req e) = json_headers"
  by (simp add: get_product_def Let_def kv_not_configured_def split: option.splits sum.splits)

lemma headers_place_order:
  "headers (fst (place_order rt a e n p ad items)) = json_headers"
  by (simp add: place_order_def Let_def db_not_configured_def split: option.splits sum.splits)

lemma headers_checkout: "headers (fst (checkout rt a req e)) = json_headers"
  by (simp add: checkout_def Let_def headers_place_order invalid_item_response_def
      split: sum.splits json.splits option.splits bool.splits)

lemma headers_get_orders: "headers (get_orders rt a e) = json_headers"
  by (simp add: get_orders_def db_not_configured_def split: option.splits sum.splits)

lemma headers_get_order: "headers (get_order rt a req e) = json_headers"
  by (simp add: get_order_def Let_def db_not_configured_def split: option.splits sum.splits)

text \<open>
  Claim C4, as the code has it: every response carries
  \<^verbatim>\<open>Access-Control-Allow-Origin: *\<close>, and every response other than the preflight
  response to \<^verbatim>\<open>OPTIONS\<close> carries \<^verbatim>\<open>Content-Type: application/json\<close>; the preflight
  response, built with a \<^verbatim>\<open>null\<close> body, has no \<^verbatim>\<open>Content-Type\<close> among its headers.
\<close>

theorem fetch_headers:
  "header (fst (fetch rt a req e)) ''Access-Control-Allow-Origin'' = Some ''*'' \<and>
   header (fst (fetch rt a req e)) ''Content-Type'' =
     (if req_method req = ''OPTIONS'' then None else Some ''application/json'')"
  by (simp add: fetch_def header_def preflight_response_def headers_get_products
      headers_get_product headers_checkout headers_get_orders headers_get_order
      health_def default_response_def json_headers_def)

theorem fetch_headers_witness:
  "header (fst (fetch sample_runtime sample_ambient (bodyless ''GET'' ''/health'') sample_env))
     ''Content-Type'' = Some ''application/json''"
  using fetch_headers [of sample_runtime sample_ambient "bodyless ''GET'' ''/health''" sample_env]
  by (simp add: bodyless_def)

text \<open>
  Claim C4 as stated fails on the preflight response: it has no \<^verbatim>\<open>Content-Type\<close>.
\<close>

theorem preflight_has_no_content_type:
  "header (fst (fetch sample_runtime sample_ambient (bodyless ''OPTIONS'' ''/checkout'') sample_env))
     ''Content-Type'' \<noteq> Some ''application/json''"
  by (simp add: fetch_def bodyless_def header_def preflight_response_def)

section \<open>POST /checkout\<close>

lemma fetch_checkout:
  "req_method req = ''POST'' \<Longrightarrow> req_pathname req = ''/checkout'' \<Longrightarrow>
   fetch rt a req e = checkout rt a req e"
  by (simp add: fetch_def)

lemma checkout_unparsed:
  "req_json req = Inl m \<Longrightarrow> checkout rt a req e = (checkout_error m, e)"
  by (simp add: checkout_def)

lemma checkout_null:
  "req_json req = Inr JNull \<Longrightarrow>
   checkout rt a req e = (checkout_error (destructure_null_msg rt), e)"
  by (simp add: checkout_def)

lemma is_array_truthy: "is_array v \<Longrightarrow> truthy_opt v"
  by (erule is_array.elims) simp_all

lemma checkout_parsed:
  "req_json req = Inr b \<Longrightarrow> b \<noteq> JNull \<Longrightarrow>
   checkout rt a req e =
     (if \<not> truthy_opt (field b ''name'') \<or> \<not> truthy_opt (field b ''phone'')
         \<or> \<not> truthy_opt (field b ''address'') \<or> \<not> is_array (field b ''items'')
      then (json_response 400 (error_body missing_fields_msg), e)
      else if array_elems (field b ''items'') = []
      then (json_response 400 (error_body ''Cart is empty''), e)
      else
        (case validate_items rt (array_elems (field b ''items'')) of
           Inl m \<Rightarrow> (checkout_error m, e)
         | Inr (Some item) \<Rightarrow> (invalid_item_response item, e)
         | Inr None \<Rightarrow>
             place_order rt a e (the (field b ''name'')) (the (field b ''phone''))
               (the (field b ''address'')) (array_elems (field b ''items''))))"
  using is_array_truthy [of "field b ''items''"]
  by (cases b) (auto simp add: checkout_def Let_def split: sum.splits option.splits)

lemma status_checkout_error [simp]: "status (checkout_error m) = 500"
  by (simp add: checkout_error_def json_response_def)

lemma status_json_response [simp]: "status (json_response st v) = st"
  by (simp add: json_response_def)

lemma body_json_response [simp]: "body (json_response st v) = Some v"
  by (simp add: json_response_def)

lemma place_order_cases:
  "place_order rt a e n p ad items = (r, e') \<Longrightarrow>
   (status r = 500 \<and> e' = e) \<or>
   (r = json_response 201 (success_body rt a n items) \<and>
    (\<exists>rs row. DB e = Some rs \<and> e' = e\<lparr>DB := Some (rs @ [row])\<rparr> \<and>
       row_id row = order_id a \<and> order_id a \<notin> row_id ` set rs \<and>
       row_items row = json_stringify rt (JArr items) \<and>
       row_created_at row = int (created_at_of a)))"
  by (auto simp add: place_order_def Let_def db_not_configured_def db_insert_def
      split: option.splits sum.splits if_splits)

lemma missing_fields_not_cart_empty:
  "json_response 400 (error_body ''Cart is empty'') \<noteq> json_response 400 (error_body missing_fields_msg)"
  by (simp add: json_response_def error_body_def missing_fields_msg_def)

lemma missing_fields_not_invalid_item:
  "invalid_item_response item \<noteq> json_response 400 (error_body missing_fields_msg)"
  by (simp add: invalid_item_response_def json_response_def error_body_def)

lemma checkout_error_not_400: "checkout_error m \<noteq> json_response 400 v"
proof
  assume "checkout_error m = json_response 400 v"
  then have "status (checkout_error m) = status (json_response 400 v)"
    by simp
  then show False by simp
qed

text \<open>
  Claim C1, as the code has it: \<^verbatim>\<open>POST /checkout\<close> answers 400 with the
  missing-fields body exactly when the body parses as JSON to a value other than \<^verbatim>\<open>null\<close>
  and one of \<^verbatim>\<open>name\<close>, \<^verbatim>\<open>phone\<close>, \<^verbatim>\<open>address\<close> is absent or falsy (a truthy value that
  is not a string passes) or \<^verbatim>\<open>items\<close> is not an array. A body that does not parse goes
  to the \<^verbatim>\<open>catch\<close> of line 243 and is answered 500 with the parser's message.
\<close>

theorem checkout_missing_fields:
  assumes "req_method req = ''POST''" and "req_pathname req = ''/checkout''"
  shows "(fst (fetch rt a req e) = json_response 400 (error_body missing_fields_msg)) =
           (\<exists>b. req_json req = Inr b \<and> b \<noteq> JNull \<and>
              (\<not> truthy_opt (field b ''name'') \<or> \<not> truthy_opt (field b ''phone'') \<or>
               \<not> truthy_opt (field b ''address'') \<or> \<not> is_array (field b ''items''))) \<and>
         (\<forall>m. req_json req = Inl m \<longrightarrow> fetch rt a req e = (checkout_error m, e))"
proof -
  have f: "fetch rt a req e = checkout rt a req e"
    using assms by (rule fetch_checkout)
  show ?thesis
  proof (cases "req_json req")
    case (Inl m)
    then show ?thesis
      by (simp add: f checkout_unparsed checkout_error_not_400)
  next
    case (Inr b)
    show ?thesis
    proof (cases "b = JNull")
      case True
      then show ?thesis
        using Inr by (simp add: f checkout_null checkout_error_not_400)
    next
      case False
      note eq = checkout_parsed [OF Inr False, of rt a e]
      obtain r e' where p: "place_order rt a e (the (field b ''name'')) (the (field b ''phone''))
               (the (field b ''address'')) (array_elems (field b ''items'')) = (r, e')"
        by (cases "place_order rt a e (the (field b ''name'')) (the (field b ''phone''))
               (the (field b ''address'')) (array_elems (field b ''items''))")
      have "status r \<noteq> 400"
        using place_order_cases [OF p] by auto
      then have r: "r \<noteq> json_response 400 (error_body missing_fields_msg)"
        by auto
      show ?thesis
        using Inr False r p
        by (simp add: f eq missing_fields_not_cart_empty missing_fields_not_invalid_item
            checkout_error_not_400 split: sum.splits option.splits)
    qed
  qed
qed

theorem checkout_missing_fields_witness:
  "fst (fetch sample_runtime sample_ambient
          (post_checkout (Inr (sample_body (JStr []) (JArr [])))) sample_env) =
     json_response 400 (error_body missing_fields_msg)"
  using checkout_missing_fields [of "post_checkout (Inr (sample_body (JStr []) (JArr [])))"
      sample_runtime sample_ambient sample_env]
  by (simp add: post_checkout_def sample_body_def)

lemma starts_with_Nil [simp]: "starts_with s [] = True"
  by (simp add: starts_with_def)

lemma starts_with_Cons_Cons [simp]:
  "starts_with (c # cs) (d # ds) = (c = d \<and> starts_with cs ds)"
  by (auto simp add: starts_with_def)

lemma starts_with_Nil_Cons [simp]: "starts_with [] (d # ds) = False"
  by (simp add: starts_with_def)

text \<open>
  Claim C1 as stated fails twice: a body that does not parse is answered 500, not 400;
  and with \<^verbatim>\<open>name: 123\<close>, which is not a string, the request passes the first test and
  is answered by the second one.
\<close>

theorem unparsed_body_is_500:
  "fst (fetch sample_runtime sample_ambient
          (post_checkout (Inl ''Unexpected end of JSON input'')) sample_env) =
     json_response 500 (error_body ''Unexpected end of JSON input'') \<and>
   fst (fetch sample_runtime sample_ambient
          (post_checkout (Inr (sample_body (JNum 123) (JArr [])))) sample_env) =
     json_response 400 (error_body ''Cart is empty'')"
  by (simp add: fetch_def post_checkout_def checkout_def checkout_error_def sample_body_def)

section \<open>Item validation\<close>

lemma validate_items_first:
  "\<forall>j \<in> set pre. check_item rt j = Inr False \<Longrightarrow> check_item rt item = Inr True \<Longrightarrow>
   validate_items rt (pre @ item # post) = Inr (Some item)"
  by (induction pre) simp_all

lemma validate_items_pass:
  "\<forall>j \<in> set items. check_item rt j = Inr False \<Longrightarrow> validate_items rt items = Inr None"
  by (induction items) simp_all

text \<open>The test of line 170 on an object whose quantity is a number.\<close>

lemma check_item_number:
  "map_of kvs ''quantity'' = Some (JNum q) \<Longrightarrow>
   check_item rt (JObj kvs) = Inr (\<not> truthy_opt (map_of kvs ''id'') \<or> q < 1)"
  by (auto simp add: check_item_def)

text \<open>
  Claim C2, as the code has it: when name, phone and address are truthy and the first
  item that the test of line 170 rejects (its \<^verbatim>\<open>id\<close> is absent or falsy, or its
  \<^verbatim>\<open>quantity\<close> is absent or falsy, or \<^verbatim>\<open>quantity < 1\<close> holds under JavaScript's
  comparison) comes after items that all pass the test, the answer is 400 with the
  invalid-item body naming that item, and the bindings are unchanged.
\<close>

theorem checkout_invalid_item:
  assumes "req_method req = ''POST''" and "req_pathname req = ''/checkout''"
    and "req_json req = Inr b"
    and "truthy_opt (field b ''name'')" and "truthy_opt (field b ''phone'')"
    and "truthy_opt (field b ''address'')"
    and "field b ''items'' = Some (JArr (pre @ item # post))"
    and "\<forall>j \<in> set pre. check_item rt j = Inr False"
    and "check_item rt item = Inr True"
  shows "fetch rt a req e = (invalid_item_response item, e)"
proof -
  have "b \<noteq> JNull"
    using assms(4) by auto
  then show ?thesis
    using assms
    by (simp add: fetch_checkout checkout_parsed validate_items_first)
qed

theorem checkout_invalid_item_witness:
  "fetch sample_runtime sample_ambient
     (post_checkout (Inr (sample_body (JStr ''Ann'') (JArr [item_of (JNum 2), item_of (JNum 0)]))))
     sample_env =
   (invalid_item_response (item_of (JNum 0)), sample_env)"
  using checkout_invalid_item [of
      "post_checkout (Inr (sample_body (JStr ''Ann'') (JArr [item_of (JNum 2), item_of (JNum 0)])))"
      "sample_body (JStr ''Ann'') (JArr [item_of (JNum 2), item_of (JNum 0)])"
      "[item_of (JNum 2)]" "item_of (JNum 0)" "[]" sample_runtime sample_ambient sample_env]
  by (simp add: post_checkout_def sample_body_def item_of_def check_item_def)

lemma decimal_sample: "decimal 1700000000000 = ''1700000000000''"
  by (simp add: decimal.simps digit_char_def)

text \<open>
  Claim C2 as stated fails on a quantity that is truthy, not a number and not below 1
  after coercion: \<^verbatim>\<open>quantity: true\<close> passes the test, and the order is inserted.
\<close>

theorem true_quantity_is_accepted:
  \<open>status (fst (fetch sample_runtime sample_ambient
      (post_checkout (Inr (sample_body (JStr ''Ann'') (JArr [item_of (JBool True)]))))
      sample_env)) = 201 \<and>
   DB (snd (fetch sample_runtime sample_ambient
      (post_checkout (Inr (sample_body (JStr ''Ann'') (JArr [item_of (JBool True)]))))
      sample_env)) =
     Some [sample_row ''ord_1700000000000_i'' ''[{"id":"x","quantity":true}]'']\<close>
  by (simp add: fetch_def post_checkout_def checkout_def sample_body_def item_of_def
      check_item_def place_order_def Let_def sample_env_def sample_runtime_def bind_text_def
      db_insert_def sample_ambient_def order_id_def created_at_of_def decimal_sample
      substr_2_9_def sample_row_def)

section \<open>The order store under a request\<close>

lemma checkout_cases:
  assumes "checkout rt a req e = (r, e')"
  shows "(status r \<noteq> 201 \<and> e' = e) \<or>
         (status r = 201 \<and>
          (\<exists>rs row. DB e = Some rs \<and> e' = e\<lparr>DB := Some (rs @ [row])\<rparr> \<and>
             row_id row = order_id a \<and> order_id a \<notin> row_id ` set rs))"
proof (cases "req_json req")
  case (Inl m)
  then show ?thesis
    using assms by (auto simp add: checkout_unparsed)
next
  case (Inr b)
  show ?thesis
  proof (cases "b = JNull")
    case True
    then show ?thesis
      using assms Inr by (auto simp add: checkout_null)
  next
    case False
    have eq: "checkout rt a req e = (r, e')"
      by (rule assms)
    show ?thesis
      using eq unfolding checkout_parsed [OF Inr False]
      by (auto simp add: invalid_item_response_def split: if_splits sum.splits option.splits
          dest!: place_order_cases)
  qed
qed

text \<open>
  Claim C9: whenever \<^verbatim>\<open>POST /checkout\<close> answers with a status other than 201 the
  bindings, and with them the order store, are as before; and it answers 201 exactly
  when the store has gained exactly one row, appended to the rows it had.
\<close>

theorem checkout_atomic:
  assumes "req_method req = ''POST''" and "req_pathname req = ''/checkout''"
  shows "(status (fst (fetch rt a req e)) \<noteq> 201 \<longrightarrow> snd (fetch rt a req e) = e) \<and>
         ((status (fst (fetch rt a req e)) = 201) =
          (\<exists>rs row. DB e = Some rs \<and> DB (snd (fetch rt a req e)) = Some (rs @ [row])))"
proof -
  obtain r e' where c: "checkout rt a req e = (r, e')"
    by (cases "checkout rt a req e")
  have f: "fetch rt a req e = (r, e')"
    using assms c by (simp add: fetch_checkout)
  show ?thesis
    using checkout_cases [OF c] by (auto simp add: f)
qed

theorem checkout_atomic_witness:
  \<open>status (fst (fetch sample_runtime sample_ambient
      (post_checkout (Inr (sample_body (JStr ''Ann'') (JArr [item_of (JNum 2)]))))
      sample_env)) = 201 \<and>
   (\<exists>rs row. DB sample_env = Some rs \<and>
      DB (snd (fetch sample_runtime sample_ambient
        (post_checkout (Inr (sample_body (JStr ''Ann'') (JArr [item_of (JNum 2)]))))
        sample_env)) = Some (rs @ [row])) \<and>
   status (fst (fetch sample_runtime sample_ambient
      (post_checkout (Inr (sample_body (JStr ''Ann'') (JArr [])))) sample_env)) = 400 \<and>
   snd (fetch sample_runtime sample_ambient
      (post_checkout (Inr (sample_body (JStr ''Ann'') (JArr [])))) sample_env) = sample_env\<close>
proof -
  let ?r1 = "post_checkout (Inr (sample_body (JStr ''Ann'') (JArr [item_of (JNum 2)])))"
  let ?r2 = "post_checkout (Inr (sample_body (JStr ''Ann'') (JArr [])))"
  have m: "req_method (post_checkout x) = ''POST''" "req_pathname (post_checkout x) = ''/checkout''"
    for x
    by (simp_all add: post_checkout_def)
  have s: "status (fst (fetch sample_runtime sample_ambient ?r1 sample_env)) = 201"
    by (simp add: fetch_def post_checkout_def checkout_def sample_body_def item_of_def
      check_item_def place_order_def Let_def sample_env_def sample_runtime_def bind_text_def
      db_insert_def sample_ambient_def)
  have t: "status (fst (fetch sample_runtime sample_ambient ?r2 sample_env)) = 400"
    by (simp add: fetch_def post_checkout_def checkout_def sample_body_def)
  then have t': "status (fst (fetch sample_runtime sample_ambient ?r2 sample_env)) \<noteq> 201"
    by simp
  note i1 = checkout_atomic [OF m, where rt = sample_runtime and a = sample_ambient
      and e = sample_env]
  have e1: "\<exists>rs row. DB sample_env = Some rs \<and>
      DB (snd (fetch sample_runtime sample_ambient ?r1 sample_env)) = Some (rs @ [row])"
    using s i1 by blast
  have e2: "snd (fetch sample_runtime sample_ambient ?r2 sample_env) = sample_env"
    using t' i1 by blast
  show ?thesis
    using s e1 t e2 by blast
qed

text \<open>
  Claim C8: under any request the product binding is unchanged and the rows of
  \<^verbatim>\<open>orders\<close> are either exactly as before or, for \<^verbatim>\<open>POST /checkout\<close> only, as before
  with one row appended: no request updates or deletes a row.
\<close>

theorem orders_only_grow:
  "PRODUCTS_KV (snd (fetch rt a req e)) = PRODUCTS_KV e \<and>
   (DB (snd (fetch rt a req e)) = DB e \<or>
    (req_method req = ''POST'' \<and> req_pathname req = ''/checkout'' \<and>
     (\<exists>rs row. DB e = Some rs \<and> DB (snd (fetch rt a req e)) = Some (rs @ [row]))))"
proof (cases "req_method req = ''POST'' \<and> req_pathname req = ''/checkout''")
  case True
  obtain r e' where c: "checkout rt a req e = (r, e')"
    by (cases "checkout rt a req e")
  have f: "fetch rt a req e = (r, e')"
    using True c by (simp add: fetch_checkout)
  show ?thesis
    using checkout_cases [OF c] True by (auto simp add: f)
next
  case False
  then have "snd (fetch rt a req e) = e"
    by (auto simp add: fetch_def)
  then show ?thesis by simp
qed

theorem orders_only_grow_witness:
  "DB (snd (fetch sample_runtime sample_ambient (bodyless ''DELETE'' ''/orders'') sample_env)) =
     DB sample_env"
  using orders_only_grow [of sample_runtime sample_ambient "bodyless ''DELETE'' ''/orders''"
      sample_env]
  by (simp add: bodyless_def)

section \<open>Reading orders\<close>

lemma starts_with_append: "starts_with p q \<Longrightarrow> \<exists>t. p = q @ t"
  unfolding starts_with_def by (metis append_take_drop_id)

lemma fetch_get_order:
  assumes "req_method req = ''GET''" and "starts_with (req_pathname req) ''/order/''"
  shows "fetch rt a req e = (get_order rt a req e, e)"
proof -
  obtain t where "req_pathname req = ''/order/'' @ t"
    using starts_with_append [OF assms(2)] by blast
  then show ?thesis
    using assms(1) by (simp add: fetch_def)
qed

lemma fetch_get_orders:
  "req_method req = ''GET'' \<Longrightarrow> req_pathname req = ''/orders'' \<Longrightarrow>
   fetch rt a req e = (get_orders rt a e, e)"
  by (simp add: fetch_def)

text \<open>
  Claim C10: for \<^verbatim>\<open>GET /order/:id\<close>, when the row with the requested id exists and its
  \<^verbatim>\<open>items\<close> column does not parse, the answer is 500 with the parser's message as
  \<^verbatim>\<open>error\<close> and nothing else: no \<^verbatim>\<open>items: []\<close>, no \<^verbatim>\<open>parseError\<close>.
\<close>

theorem get_order_unparsable_items:
  assumes "req_method req = ''GET''" and "starts_with (req_pathname req) ''/order/''"
    and "DB e = Some rs" and "next_fault (faults a) = None"
    and "find (\<lambda>r. row_id r = last_segment (req_pathname req)) rs = Some row"
    and "json_parse rt (row_items row) = Inl m"
  shows "fetch rt a req e = (json_response 500 (error_body m), e)"
  using assms(3-6)
  by (simp add: fetch_get_order [OF assms(1,2)] get_order_def db_first_def)

theorem get_order_unparsable_items_witness:
  "fetch sample_runtime sample_ambient (bodyless ''GET'' ''/order/o1'')
     \<lparr>PRODUCTS_KV = None, DB = Some [sample_row ''o1'' ''{oops'']\<rparr> =
   (json_response 500 (error_body ''Unexpected token in JSON''),
    \<lparr>PRODUCTS_KV = None, DB = Some [sample_row ''o1'' ''{oops'']\<rparr>)"
  using get_order_unparsable_items [of "bodyless ''GET'' ''/order/o1''"
      "\<lparr>PRODUCTS_KV = None, DB = Some [sample_row ''o1'' ''{oops'']\<rparr>"
      "[sample_row ''o1'' ''{oops'']" sample_ambient "sample_row ''o1'' ''{oops''"
      sample_runtime "''Unexpected token in JSON''"]
  by (simp add: bodyless_def sample_ambient_def last_segment_def sample_row_def
      sample_runtime_def)

section \<open>Errors of the order store\<close>

lemma str_includes_Nil [simp]: "str_includes [] (c # cs) = False"
  by simp

lemma checkout_error_if:
  "checkout_error m =
     (if str_includes m ''no such table''
      then json_response 500
             (JObj [(''error'', JStr ''Orders table not found. Please run the schema.sql file first.''),
                    (''details'', JStr m)])
      else json_response 500 (error_body m))"
  by (cases m) (simp_all add: checkout_error_def)

lemma orders_error_if:
  "orders_error m =
     (if str_includes m ''no such table''
      then json_response 404
             (JObj [(''error'', JStr ''Orders table not found. No orders have been placed yet.''),
                    (''details'', JStr m)])
      else json_response 500 (error_body m))"
  by (cases m) (simp_all add: orders_error_def)

text \<open>
  Claim C7, as the code has it: when the insert of \<^verbatim>\<open>POST /checkout\<close> raises an error
  with message \<open>m\<close>, the answer is 500 with the table-not-found body and \<^verbatim>\<open>details: m\<close>
  if \<open>m\<close> contains \<^verbatim>\<open>no such table\<close>, and 500 with \<^verbatim>\<open>{error: m}\<close> otherwise; when the
  listing query of \<^verbatim>\<open>GET /orders\<close> raises it, the answer is 404 with its table-not-found
  body, and 500 with \<^verbatim>\<open>{error: m}\<close> otherwise. (An error of a per-row query of
  \<^verbatim>\<open>GET /orders\<close> is caught for that row alone.)
\<close>

theorem store_error_responses:
  "(req_method req = ''POST'' \<and> req_pathname req = ''/checkout'' \<and> req_json req = Inr b \<and>
    field b ''name'' = Some (JStr n) \<and> n \<noteq> [] \<and>
    field b ''phone'' = Some (JStr p) \<and> p \<noteq> [] \<and>
    field b ''address'' = Some (JStr ad) \<and> ad \<noteq> [] \<and>
    field b ''items'' = Some (JArr items) \<and> items \<noteq> [] \<and>
    validate_items rt items = Inr None \<and>
    DB e = Some rs \<and> next_fault (faults a) = Some m \<longrightarrow>
    fetch rt a req e =
      (if str_includes m ''no such table''
       then json_response 500
              (JObj [(''error'', JStr ''Orders table not found. Please run the schema.sql file first.''),
                     (''details'', JStr m)])
       else json_response 500 (error_body m), e)) \<and>
   (req_method req = ''GET'' \<and> req_pathname req = ''/orders'' \<and>
    DB e = Some rs \<and> next_fault (faults a) = Some m \<longrightarrow>
    fetch rt a req e =
      (if str_includes m ''no such table''
       then json_response 404
              (JObj [(''error'', JStr ''Orders table not found. No orders have been placed yet.''),
                     (''details'', JStr m)])
       else json_response 500 (error_body m), e))"
proof (intro conjI impI)
  assume h: "req_method req = ''POST'' \<and> req_pathname req = ''/checkout'' \<and> req_json req = Inr b \<and>
    field b ''name'' = Some (JStr n) \<and> n \<noteq> [] \<and>
    field b ''phone'' = Some (JStr p) \<and> p \<noteq> [] \<and>
    field b ''address'' = Some (JStr ad) \<and> ad \<noteq> [] \<and>
    field b ''items'' = Some (JArr items) \<and> items \<noteq> [] \<and>
    validate_items rt items = Inr None \<and>
    DB e = Some rs \<and> next_fault (faults a) = Some m"
  then have nn: "b \<noteq> JNull"
    by auto
  have j: "req_json req = Inr b"
    using h by simp
  have "fetch rt a req e = (checkout_error m, e)"
    using h
    by (simp add: fetch_checkout checkout_parsed [OF j nn] place_order_def bind_text_def
        db_insert_def)
  then show "fetch rt a req e =
      (if str_includes m ''no such table''
       then json_response 500
              (JObj [(''error'', JStr ''Orders table not found. Please run the schema.sql file first.''),
                     (''details'', JStr m)])
       else json_response 500 (error_body m), e)"
    by (simp only: checkout_error_if)
next
  assume h: "req_method req = ''GET'' \<and> req_pathname req = ''/orders'' \<and>
    DB e = Some rs \<and> next_fault (faults a) = Some m"
  then have "fetch rt a req e = (orders_error m, e)"
    by (simp add: fetch_get_orders get_orders_def db_select_all_def)
  then show "fetch rt a req e =
      (if str_includes m ''no such table''
       then json_response 404
              (JObj [(''error'', JStr ''Orders table not found. No orders have been placed yet.''),
                     (''details'', JStr m)])
       else json_response 500 (error_body m), e)"
    by (simp only: orders_error_if)
qed

theorem store_error_responses_witness:
  \<open>fetch sample_runtime
     (sample_ambient\<lparr>faults := [Some ''D1_ERROR: no such table: orders: SQLITE_ERROR'']\<rparr>)
     (post_checkout (Inr (sample_body (JStr ''Ann'') (JArr [item_of (JNum 2)])))) sample_env =
   (json_response 500
      (JObj [(''error'', JStr ''Orders table not found. Please run the schema.sql file first.''),
             (''details'', JStr ''D1_ERROR: no such table: orders: SQLITE_ERROR'')]),
    sample_env) \<and>
   fetch sample_runtime
     (sample_ambient\<lparr>faults := [Some ''D1_ERROR: no such table: orders: SQLITE_ERROR'']\<rparr>)
     (bodyless ''GET'' ''/orders'') sample_env =
   (json_response 404
      (JObj [(''error'', JStr ''Orders table not found. No orders have been placed yet.''),
             (''details'', JStr ''D1_ERROR: no such table: orders: SQLITE_ERROR'')]),
    sample_env) \<and>
   fetch sample_runtime (sample_ambient\<lparr>faults := [Some ''Network connection lost.'']\<rparr>)
     (bodyless ''GET'' ''/orders'') sample_env =
   (json_response 500 (error_body ''Network connection lost.''), sample_env)\<close>
proof -
  let ?m = "''D1_ERROR: no such table: orders: SQLITE_ERROR''"
  let ?a = "sample_ambient\<lparr>faults := [Some ?m]\<rparr>"
  have i: "str_includes ?m ''no such table''"
    by simp
  have k: "\<not> str_includes ''Network connection lost.'' ''no such table''"
    by simp
  have c: "fetch sample_runtime ?a
     (post_checkout (Inr (sample_body (JStr ''Ann'') (JArr [item_of (JNum 2)])))) sample_env =
   (json_response 500
      (JObj [(''error'', JStr ''Orders table not found. Please run the schema.sql file first.''),
             (''details'', JStr ?m)]), sample_env)"
    using i store_error_responses [of
        "post_checkout (Inr (sample_body (JStr ''Ann'') (JArr [item_of (JNum 2)])))"
        "sample_body (JStr ''Ann'') (JArr [item_of (JNum 2)])" "''Ann''" "''555-0100''"
        "''1 Main St''" "[item_of (JNum 2)]" sample_runtime sample_env "[]" ?a ?m,
        THEN conjunct1]
    by (simp add: post_checkout_def sample_body_def item_of_def check_item_def sample_env_def)
  have g: "fetch sample_runtime ?a (bodyless ''GET'' ''/orders'') sample_env =
   (json_response 404
      (JObj [(''error'', JStr ''Orders table not found. No orders have been placed yet.''),
             (''details'', JStr ?m)]), sample_env)"
    using i store_error_responses [of "bodyless ''GET'' ''/orders''" JNull "[]" "[]" "[]" "[]"
        sample_runtime sample_env "[]" ?a ?m, THEN conjunct2]
    by (simp add: bodyless_def sample_env_def)
  have n: "fetch sample_runtime (sample_ambient\<lparr>faults := [Some ''Network connection lost.'']\<rparr>)
     (bodyless ''GET'' ''/orders'') sample_env =
   (json_response 500 (error_body ''Network connection lost.''), sample_env)"
    using k store_error_responses [of "bodyless ''GET'' ''/orders''" JNull "[]" "[]" "[]" "[]"
        sample_runtime sample_env "[]"
        "sample_ambient\<lparr>faults := [Some ''Network connection lost.'']\<rparr>"
        "''Network connection lost.''", THEN conjunct2]
    by (simp add: bodyless_def sample_env_def)
  show ?thesis
    using c g n by blast
qed

text \<open>
  Claim C7 as stated fails when the statement that raises is a per-row query of
  \<^verbatim>\<open>GET /orders\<close>: the \<^verbatim>\<open>catch\<close> of line 312 takes the error, and the answer is 200.
\<close>

theorem row_query_error_is_200:
  \<open>fetch sample_runtime
     (sample_ambient\<lparr>faults := [None, Some ''D1_ERROR: no such table: orders: SQLITE_ERROR'']\<rparr>)
     (bodyless ''GET'' ''/orders'')
     \<lparr>PRODUCTS_KV = None, DB = Some [sample_row ''o1'' ''[{"id":"x","quantity":2}]'']\<rparr> =
   (json_response 200
      (JArr [JObj [(''id'', JStr ''o1''), (''name'', JStr ''Ann''), (''phone'', JStr ''555-0100''),
                   (''address'', JStr ''1 Main St''),
                   (''created_at'', JStr ''2023-11-14T22:13:20.000Z''),
                   (''items'', JArr []),
                   (''parseError'', JStr ''D1_ERROR: no such table: orders: SQLITE_ERROR'')]]),
    \<lparr>PRODUCTS_KV = None, DB = Some [sample_row ''o1'' ''[{"id":"x","quantity":2}]'']\<rparr>)\<close>
  by (simp add: fetch_def bodyless_def get_orders_def db_select_all_def sample_ambient_def
      order_with_items_def db_first_def order_fallback_def date_iso_def sample_row_def
      order_props_def sample_runtime_def)

section \<open>Order ids and the round trip of the items\<close>

lemma checkout_success:
  assumes "checkout rt a req e = (r, e')" and "status r = 201"
  shows "\<exists>b name items rs row.
           req_json req = Inr b \<and> field b ''items'' = Some (JArr items) \<and>
           r = json_response 201 (success_body rt a name items) \<and>
           DB e = Some rs \<and> e' = e\<lparr>DB := Some (rs @ [row])\<rparr> \<and>
           row_id row = order_id a \<and> order_id a \<notin> row_id ` set rs \<and>
           row_items row = json_stringify rt (JArr items) \<and>
           row_created_at row = int (created_at_of a)"
proof (cases "req_json req")
  case (Inl m)
  then show ?thesis
    using assms by (auto simp add: checkout_unparsed)
next
  case (Inr b)
  show ?thesis
  proof (cases "b = JNull")
    case True
    then show ?thesis
      using assms Inr by (auto simp add: checkout_null)
  next
    case False
    have arr: "is_array v \<Longrightarrow> v = Some (JArr (array_elems v))" for v
      by (erule is_array.elims) simp_all
    have eq: "checkout rt a req e = (r, e')"
      by (rule assms)
    show ?thesis
      using eq assms(2) Inr unfolding checkout_parsed [OF Inr False]
      by (auto simp add: invalid_item_response_def split: if_splits sum.splits option.splits
          dest!: place_order_cases arr)
  qed
qed

lemma digit_char_in: "digit_char d \<in> set ''0123456789''"
proof -
  have "d mod 10 < length ''0123456789''"
    by simp
  then show ?thesis
    unfolding digit_char_def by (rule nth_mem)
qed

lemma decimal_digits: "set (decimal n) \<subseteq> set ''0123456789''"
proof (induction n rule: decimal.induct)
  case (1 n)
  show ?case
  proof (cases "n < 10")
    case True
    then have "decimal n = [digit_char n]"
      by (simp add: decimal.simps)
    then show ?thesis
      using digit_char_in [of n] by simp
  next
    case False
    then have "decimal n = decimal (n div 10) @ [digit_char n]"
      by (subst decimal.simps) simp
    then show ?thesis
      using 1 False digit_char_in [of n] by simp
  qed
qed

lemma substr_2_9_length:
  "length (substr_2_9 s) \<le> 9 \<and> (length (substr_2_9 s) = 9) = (11 \<le> length s)"
  by (auto simp add: substr_2_9_def)

lemma substr_2_9_fraction:
  "s = ''0.'' @ ds \<Longrightarrow> set ds \<subseteq> base36 \<Longrightarrow> set (substr_2_9 s) \<subseteq> base36"
  using set_take_subset [of 9 ds] by (auto simp add: substr_2_9_def)

text \<open>
  Claim C5, as the code has it: the \<^verbatim>\<open>orderId\<close> of a 201 response is \<^verbatim>\<open>ord_\<close>, the
  decimal digits of the clock's milliseconds, \<^verbatim>\<open>_\<close>, and the suffix
  \<^verbatim>\<open>Math.random().toString(36).substr(2, 9)\<close>: at most nine characters, nine exactly when
  that string has at least eleven, and base-36 digits when the string is \<^verbatim>\<open>0.\<close> followed
  by base-36 digits. The id is that of no row the store held before the request and is
  the id of a row it holds after it.
\<close>

theorem order_id_format:
  assumes "req_method req = ''POST''" and "req_pathname req = ''/checkout''"
    and "status (fst (fetch rt a req e)) = 201"
  shows "\<exists>v rs sfx.
           body (fst (fetch rt a req e)) = Some v \<and>
           field v ''orderId'' = Some (JStr (''ord_'' @ decimal (now_ms1 a) @ ''_'' @ sfx)) \<and>
           set (decimal (now_ms1 a)) \<subseteq> set ''0123456789'' \<and>
           sfx = take 9 (drop 2 (random36 a)) \<and> length sfx \<le> 9 \<and>
           (length sfx = 9) = (11 \<le> length (random36 a)) \<and>
           (\<forall>ds. random36 a = ''0.'' @ ds \<and> set ds \<subseteq> base36 \<longrightarrow> set sfx \<subseteq> base36) \<and>
           DB e = Some rs \<and>
           ''ord_'' @ decimal (now_ms1 a) @ ''_'' @ sfx \<notin> row_id ` set rs \<and>
           (\<exists>rs'. DB (snd (fetch rt a req e)) = Some rs' \<and>
              ''ord_'' @ decimal (now_ms1 a) @ ''_'' @ sfx \<in> row_id ` set rs')"
proof -
  obtain r e' where c: "checkout rt a req e = (r, e')"
    by (cases "checkout rt a req e")
  have f: "fetch rt a req e = (r, e')"
    using assms(1,2) c by (simp add: fetch_checkout)
  have s: "status r = 201"
    using assms(3) f by simp
  obtain name items rs row where
    r: "r = json_response 201 (success_body rt a name items)" and
    d: "DB e = Some rs" "e' = e\<lparr>DB := Some (rs @ [row])\<rparr>" and
    i: "row_id row = order_id a" "order_id a \<notin> row_id ` set rs"
    using checkout_success [OF c s] by blast
  have o: "order_id a = ''ord_'' @ decimal (now_ms1 a) @ ''_'' @ take 9 (drop 2 (random36 a))"
    by (simp add: order_id_def substr_2_9_def)
  have b: "body (fst (fetch rt a req e)) = Some (success_body rt a name items)"
    by (simp add: f r)
  have fo: "field (success_body rt a name items) ''orderId'' = Some (JStr (order_id a))"
    by (simp add: success_body_def)
  have l: "length (take 9 (drop 2 (random36 a))) \<le> 9 \<and>
      (length (take 9 (drop 2 (random36 a))) = 9) = (11 \<le> length (random36 a))"
    using substr_2_9_length [of "random36 a"] by (simp add: substr_2_9_def)
  have g: "\<forall>ds. random36 a = ''0.'' @ ds \<and> set ds \<subseteq> base36 \<longrightarrow>
      set (take 9 (drop 2 (random36 a))) \<subseteq> base36"
    using substr_2_9_fraction [of "random36 a"] by (simp add: substr_2_9_def)
  have after: "\<exists>rs'. DB (snd (fetch rt a req e)) = Some rs' \<and> order_id a \<in> row_id ` set rs'"
    using d i(1) by (simp add: f)
  show ?thesis
    using b fo l g d(1) i(2) after decimal_digits [of "now_ms1 a"] unfolding o by blast
qed

theorem order_id_format_witness:
  "\<exists>v. body (fst (fetch sample_runtime (sample_ambient\<lparr>random36 := ''0.4fzyo82mvyr''\<rparr>)
            (post_checkout (Inr (sample_body (JStr ''Ann'') (JArr [item_of (JNum 2)]))))
            sample_env)) = Some v \<and>
        field v ''orderId'' = Some (JStr ''ord_1700000000000_4fzyo82mv'')"
proof -
  let ?a = "sample_ambient\<lparr>random36 := ''0.4fzyo82mvyr''\<rparr>"
  let ?req = "post_checkout (Inr (sample_body (JStr ''Ann'') (JArr [item_of (JNum 2)])))"
  have s: "status (fst (fetch sample_runtime ?a ?req sample_env)) = 201"
    by (simp add: fetch_def post_checkout_def checkout_def sample_body_def item_of_def
      check_item_def place_order_def Let_def sample_env_def sample_runtime_def bind_text_def
      db_insert_def sample_ambient_def)
  have m: "req_method ?req = ''POST''" "req_pathname ?req = ''/checkout''"
    by (simp_all add: post_checkout_def)
  obtain v sfx where
    "body (fst (fetch sample_runtime ?a ?req sample_env)) = Some v"
    "field v ''orderId'' = Some (JStr (''ord_'' @ decimal (now_ms1 ?a) @ ''_'' @ sfx))"
    "sfx = take 9 (drop 2 (random36 ?a))"
    using order_id_format [OF m s] by blast
  then show ?thesis
    by (simp add: sample_ambient_def decimal_sample)
qed

text \<open>
  Claim C5 as stated fails when \<^verbatim>\<open>Math.random()\<close> is a number with a short base-36
  expansion: for 0.5 the string is \<^verbatim>\<open>0.i\<close>, and the suffix is the one character \<^verbatim>\<open>i\<close>.
\<close>

theorem short_order_id_suffix:
  "fst (fetch sample_runtime sample_ambient
     (post_checkout (Inr (sample_body (JStr ''Ann'') (JArr [item_of (JNum 2)])))) sample_env) =
   json_response 201
     (JObj [(''success'', JBool True), (''orderId'', JStr ''ord_1700000000000_i''),
            (''message'', JStr ''Order placed successfully''),
            (''timestamp'', JNum 1700000000),
            (''created_at'', JStr ''2023-11-14T22:13:20.000Z''),
            (''summary'',
               JObj [(''customer'', JStr ''Ann''), (''itemCount'', JNum 1),
                     (''totalItems'', JNum 2)])])"
  by (simp add: fetch_def post_checkout_def checkout_def sample_body_def item_of_def
      check_item_def place_order_def Let_def sample_env_def sample_runtime_def bind_text_def
      db_insert_def sample_ambient_def success_body_def order_id_def created_at_of_def
      decimal_sample substr_2_9_def quantity_of_def)


lemma map_of_put_prop_same [simp]: "map_of (put_prop k v kvs) k = Some v"
  by (induction kvs) auto

lemma map_of_put_prop_other [simp]:
  "k' \<noteq> k \<Longrightarrow> map_of (put_prop k v kvs) k' = map_of kvs k'"
  by (induction kvs) auto




section \<open>The listing of orders\<close>

lemma find_by_id:
  "distinct (map row_id rs) \<Longrightarrow> r \<in> set rs \<Longrightarrow> find (\<lambda>x. row_id x = row_id r) rs = Some r"
  by (induction rs) (auto simp add: rev_image_eqI)

lemma order_with_items_listed:
  assumes "distinct (map row_id rs)" and "r \<in> set rs"
    and "\<bar>row_created_at r * 1000\<bar> \<le> 8640000000000000"
  shows "order_with_items rt None rs r = Inr (spec_listed_order rt r)"
  using assms(3)
  by (simp add: order_with_items_def db_first_def find_by_id [OF assms(1,2)]
      spec_listed_order_def order_fallback_def date_iso_def order_props_def
      split: sum.splits)

lemma orders_with_items_listed:
  assumes "distinct (map row_id rs)"
  shows "set os \<subseteq> set rs \<Longrightarrow>
         \<forall>r \<in> set os. \<bar>row_created_at r * 1000\<bar> \<le> 8640000000000000 \<Longrightarrow>
         orders_with_items rt [] rs os = Inr (map (spec_listed_order rt) os)"
  by (induction os) (simp_all add: order_with_items_listed [OF assms])

text \<open>
  Claim C6, as the code has it: when no statement of the request fails, the ids are
  distinct (the primary key) and every \<^verbatim>\<open>created_at\<close> is a time in range,
  \<^verbatim>\<open>GET /orders\<close> answers 200 with one element per row, newest first; the element of a
  row has \<^verbatim>\<open>created_at\<close> as an ISO-8601 string and \<^verbatim>\<open>items\<close> parsed from the column, or
  \<^verbatim>\<open>items: []\<close> and \<^verbatim>\<open>parseError\<close> when the column does not parse; the element of a row
  whose \<^verbatim>\<open>items\<close> column is the empty string is the row as selected, with the numeric
  \<^verbatim>\<open>created_at\<close> and no \<^verbatim>\<open>items\<close>.
\<close>

theorem get_orders_listing:
  assumes "req_method req = ''GET''" and "req_pathname req = ''/orders''"
    and "DB e = Some rs" and "distinct (map row_id rs)" and "faults a = []"
    and "\<forall>r \<in> set rs. \<bar>row_created_at r * 1000\<bar> \<le> 8640000000000000"
  shows "fetch rt a req e =
           (json_response 200
              (JArr (map (spec_listed_order rt) (sort_key (\<lambda>r. - row_created_at r) rs))), e)"
proof -
  have "orders_with_items rt [] rs (sort_key (\<lambda>r. - row_created_at r) rs) =
      Inr (map (spec_listed_order rt) (sort_key (\<lambda>r. - row_created_at r) rs))"
    using assms(6) by (intro orders_with_items_listed [OF assms(4)]) simp_all
  then show ?thesis
    using assms(3,5)
    by (simp add: fetch_get_orders [OF assms(1,2)] get_orders_def db_select_all_def)
qed

theorem get_orders_listing_witness:
  \<open>fetch sample_runtime sample_ambient (bodyless ''GET'' ''/orders'')
     \<lparr>PRODUCTS_KV = None,
      DB = Some [sample_row ''o1'' ''[{"id":"x","quantity":2}]'', sample_row ''o2'' ''{oops'']\<rparr> =
   (json_response 200
      (JArr [JObj [(''id'', JStr ''o1''), (''name'', JStr ''Ann''), (''phone'', JStr ''555-0100''),
                   (''address'', JStr ''1 Main St''),
                   (''created_at'', JStr ''2023-11-14T22:13:20.000Z''),
                   (''items'', JArr [item_of (JNum 2)])],
             JObj [(''id'', JStr ''o2''), (''name'', JStr ''Ann''), (''phone'', JStr ''555-0100''),
                   (''address'', JStr ''1 Main St''),
                   (''created_at'', JStr ''2023-11-14T22:13:20.000Z''),
                   (''items'', JArr []),
                   (''parseError'', JStr ''Unexpected token in JSON'')]]),
    \<lparr>PRODUCTS_KV = None,
      DB = Some [sample_row ''o1'' ''[{"id":"x","quantity":2}]'', sample_row ''o2'' ''{oops'']\<rparr>)\<close>
  using get_orders_listing [of "bodyless ''GET'' ''/orders''"
      \<open>\<lparr>PRODUCTS_KV = None,
        DB = Some [sample_row ''o1'' ''[{"id":"x","quantity":2}]'', sample_row ''o2'' ''{oops'']\<rparr>\<close>
      \<open>[sample_row ''o1'' ''[{"id":"x","quantity":2}]'', sample_row ''o2'' ''{oops'']\<close>
      sample_ambient sample_runtime]
  by (simp add: bodyless_def sample_row_def sample_ambient_def spec_listed_order_def
      sample_runtime_def)

text \<open>
  Claim C6 as stated fails on a row whose \<^verbatim>\<open>items\<close> column is the empty string: the
  guard of line 304 returns the row as selected, with \<^verbatim>\<open>created_at\<close> still a number and
  no \<^verbatim>\<open>items\<close> field.
\<close>

theorem empty_items_row_is_listed_raw:
  "fetch sample_runtime sample_ambient (bodyless ''GET'' ''/orders'')
     \<lparr>PRODUCTS_KV = None, DB = Some [sample_row ''o1'' []]\<rparr> =
   (json_response 200
      (JArr [JObj [(''id'', JStr ''o1''), (''name'', JStr ''Ann''), (''phone'', JStr ''555-0100''),
                   (''address'', JStr ''1 Main St''),
                   (''created_at'', JNum 1700000000)]]),
    \<lparr>PRODUCTS_KV = None, DB = Some [sample_row ''o1'' []]\<rparr>)"
  by (simp add: fetch_def bodyless_def get_orders_def db_select_all_def sample_ambient_def
      order_with_items_def db_first_def sample_row_def order_props_def)

end
